theory Spec2Isabelle
  imports Main "HOL-Library.Sublist"
begin

section \<open>Python string operations used by the script\<close>

text \<open>
  The script \<^verbatim>\<open>scripts/add-examples-to-docs.py\<close> works on Python \<^verbatim>\<open>str\<close> values with
  \<^verbatim>\<open>in\<close>, \<^verbatim>\<open>replace\<close>, \<^verbatim>\<open>split\<close>, \<^verbatim>\<open>strip\<close> and concatenation. A \<^verbatim>\<open>str\<close> is a
  sequence of code points and is modelled as a \<^typ>\<open>string\<close>, one \<^typ>\<open>char\<close> per code
  point (so the model covers the code points below 256). The searching operations do not
  look at what the elements are and are written for any list.
\<close>

text \<open>\<^verbatim>\<open>s.find(pat)\<close>: the index of the leftmost occurrence, \<open>None\<close> for Python's \<open>-1\<close>.\<close>

fun str_find :: "'a list \<Rightarrow> 'a list \<Rightarrow> nat option" where
  "str_find pat [] = (if pat = [] then Some 0 else None)"
| "str_find pat (c # cs) =
     (if prefix pat (c # cs) then Some 0 else map_option Suc (str_find pat cs))"

text \<open>\<^verbatim>\<open>pat in s\<close>.\<close>

definition str_contains :: "'a list \<Rightarrow> 'a list \<Rightarrow> bool" where
  "str_contains pat s = (str_find pat s \<noteq> None)"

text \<open>
  \<^verbatim>\<open>s.split(sep, 1)\<close> when \<^verbatim>\<open>sep in s\<close>: the text before and the text after the leftmost
  occurrence of \<open>sep\<close>. \<open>None\<close> when \<open>sep\<close> does not occur (Python then returns the
  one-element list \<^verbatim>\<open>[s]\<close>).
\<close>

definition split_once :: "'a list \<Rightarrow> 'a list \<Rightarrow> ('a list \<times> 'a list) option" where
  "split_once sep s =
     map_option (\<lambda>i. (take i s, drop (i + length sep) s)) (str_find sep s)"

text \<open>\<^verbatim>\<open>s.split(d)\<close> for a separator \<open>d\<close> of one character; the result is never empty.\<close>

fun split_char :: "'a \<Rightarrow> 'a list \<Rightarrow> 'a list list" where
  "split_char d [] = [[]]"
| "split_char d (c # cs) =
     (if c = d then [] # split_char d cs
      else (case split_char d cs of
              [] \<Rightarrow> [[c]]
            | x # xs \<Rightarrow> (c # x) # xs))"

text \<open>
  \<^verbatim>\<open>s.replace(pat, rep)\<close>: every occurrence of \<open>pat\<close>, found from the left and not
  overlapping, becomes \<open>rep\<close>. For the empty pattern Python puts \<open>rep\<close> before every
  character and at the end.
\<close>

function replace_str :: "'a list \<Rightarrow> 'a list \<Rightarrow> 'a list \<Rightarrow> 'a list" where
  "replace_str pat rep [] = (if pat = [] then rep else [])"
| "replace_str pat rep (c # cs) =
     (if pat = [] then rep @ c # replace_str pat rep cs
      else if prefix pat (c # cs)
        then rep @ replace_str pat rep (drop (length pat) (c # cs))
      else c # replace_str pat rep cs)"
  by pat_completeness auto
termination
  by (relation "measure (\<lambda>(pat, rep, s). length s)") auto

text \<open>
  \<^verbatim>\<open>c.isspace()\<close> for the code points below 256: TAB to CR, FS to US, space, NEL and
  the no-break space.
\<close>

definition isspace :: "char \<Rightarrow> bool" where
  "isspace c = (c \<in> set [CHR 0x09, CHR 0x0A, CHR 0x0B, CHR 0x0C, CHR 0x0D,
                          CHR 0x1C, CHR 0x1D, CHR 0x1E, CHR 0x1F, CHR 0x20,
                          CHR 0x85, CHR 0xA0])"

text \<open>\<^verbatim>\<open>s.strip()\<close>: leading and trailing whitespace removed.\<close>

definition strip :: "string \<Rightarrow> string" where
  "strip s = rev (dropWhile isspace (rev (dropWhile isspace s)))"


section \<open>The configuration table\<close>

text \<open>
  Each value of \<^verbatim>\<open>DOCS_CONFIG\<close> is a dict with the keys \<^verbatim>\<open>"examples"\<close> (a list of
  \<^verbatim>\<open>(title, path, desc)\<close> tuples), \<^verbatim>\<open>"tests"\<close> (a list of strings
  \<^verbatim>\<open>"path - description"\<close>) and \<^verbatim>\<open>"test_filter"\<close>. The table itself is a dict, which
  \<^verbatim>\<open>main\<close> walks in insertion order: an association list.
\<close>

record page_config =
  examples :: "(string \<times> string \<times> string) list"
  tests :: "string list"
  test_filter :: string

definition DOCS_CONFIG :: "(string \<times> page_config) list" where
  "DOCS_CONFIG = [
    (''starlight/src/content/docs/simple-dto/type-casting.md'',
     \<lparr>examples = [
        (''Basic Casts'', ''examples/simple-dto/type-casting/basic-casts.php'',
          ''Common type casts''),
        (''All Casts'', ''examples/simple-dto/type-casting/all-casts.php'',
          ''Complete cast overview''),
        (''Enum Cast'', ''examples/simple-dto/type-casting/enum-cast.php'',
          ''Enum casting''),
        (''Collection Cast'', ''examples/simple-dto/type-casting/collection-cast.php'',
          ''Collection casting''),
        (''Timestamp Cast'', ''examples/simple-dto/type-casting/timestamp-cast.php'',
          ''Date/time casting''),
        (''Hashed Cast'', ''examples/simple-dto/type-casting/hashed-cast.php'',
          ''Password hashing''),
        (''Encrypted Cast'', ''examples/simple-dto/type-casting/encrypted-cast.php'',
          ''Data encryption''),
        (''Lazy Cast'', ''examples/simple-dto/type-casting/lazy-cast.php'',
          ''Lazy loading casts'')
      ],
      tests = [
        ''tests/Unit/SimpleDTO/Casts/CastTest.php - Cast functionality tests'',
        ''tests/Unit/SimpleDTO/Casts/EnumCastTest.php - Enum cast tests'',
        ''tests/Unit/SimpleDTO/Casts/CollectionCastTest.php - Collection cast tests''
      ],
      test_filter = ''Cast''\<rparr>),
    (''starlight/src/content/docs/simple-dto/validation.md'',
     \<lparr>examples = [
        (''Basic Validation'', ''examples/simple-dto/validation/basic-validation.php'',
          ''Simple validation rules''),
        (''Advanced Validation'', ''examples/simple-dto/validation/advanced-validation.php'',
          ''Complex validation scenarios''),
        (''Request Validation Core'', ''examples/simple-dto/validation/request-validation-core.php'',
          ''Core request validation''),
        (''Laravel Validation'', ''examples/simple-dto/validation/request-validation-laravel.php'',
          ''Laravel integration''),
        (''Symfony Validation'', ''examples/simple-dto/validation/request-validation-symfony.php'',
          ''Symfony integration''),
        (''Validation Modes'', ''examples/simple-dto/validation/validation-modes.php'',
          ''Different validation modes''),
        (''Nested Validation'', ''examples/simple-dto/validation/nested-validation.php'',
          ''Validating nested DTOs'')
      ],
      tests = [
        ''tests/Unit/ValidationModesTest.php - Validation mode tests'',
        ''tests/Unit/SimpleDTO/ValidationTest.php - Core validation tests'',
        ''tests/Unit/SimpleDTO/NestedValidationTest.php - Nested validation tests''
      ],
      test_filter = ''Validation''\<rparr>),
    (''starlight/src/content/docs/simple-dto/conditional-properties.md'',
     \<lparr>examples = [
        (''Basic Conditional'', ''examples/simple-dto/conditional-properties/basic-conditional.php'',
          ''Simple conditional properties''),
        (''WhenCallback with Parameters'', ''examples/simple-dto/conditional-properties/whencallback-with-parameters.php'',
          ''Callbacks with parameters''),
        (''With Method'', ''examples/simple-dto/conditional-properties/with-method.php'',
          ''Using with() method''),
        (''Context-Based Conditions'', ''examples/simple-dto/conditional-properties/context-based-conditions.php'',
          ''Context-aware conditions''),
        (''Custom Conditions'', ''examples/simple-dto/conditional-properties/custom-conditions.php'',
          ''Creating custom conditions''),
        (''Laravel Attributes'', ''examples/simple-dto/conditional-properties/laravel-conditional-attributes.php'',
          ''Laravel-specific attributes''),
        (''Symfony Attributes'', ''examples/simple-dto/conditional-properties/symfony-conditional-attributes.php'',
          ''Symfony-specific attributes'')
      ],
      tests = [
        ''tests/Unit/SimpleDTO/ConditionalPropertiesTest.php - Conditional property tests'',
        ''tests/Unit/SimpleDTO/ContextTest.php - Context tests''
      ],
      test_filter = ''Conditional''\<rparr>),
    (''starlight/src/content/docs/simple-dto/lazy-properties.md'',
     \<lparr>examples = [
        (''Basic Lazy'', ''examples/simple-dto/lazy-properties/basic-lazy.php'',
          ''Simple lazy properties''),
        (''Lazy Union Types'', ''examples/simple-dto/lazy-properties/lazy-union-types.php'',
          ''Lazy with union types''),
        (''Optional Lazy Combinations'', ''examples/simple-dto/lazy-properties/optional-lazy-combinations.php'',
          ''Combining optional and lazy'')
      ],
      tests = [
        ''tests/Unit/SimpleDTO/LazyPropertiesTest.php - Lazy property tests''
      ],
      test_filter = ''Lazy''\<rparr>),
    (''starlight/src/content/docs/simple-dto/computed-properties.md'',
     \<lparr>examples = [
        (''Basic Computed'', ''examples/simple-dto/computed-properties/basic-computed.php'',
          ''Simple computed properties'')
      ],
      tests = [
        ''tests/Unit/SimpleDTO/ComputedPropertiesTest.php - Computed property tests''
      ],
      test_filter = ''Computed''\<rparr>),
    (''starlight/src/content/docs/simple-dto/collections.md'',
     \<lparr>examples = [
        (''Data Collection'', ''examples/simple-dto/collections/data-collection.php'',
          ''Working with collections''),
        (''DTO Sorting'', ''examples/simple-dto/collections/dto-sorting.php'',
          ''Sorting DTOs in collections'')
      ],
      tests = [
        ''tests/Unit/SimpleDTO/CollectionTest.php - Collection tests''
      ],
      test_filter = ''Collection''\<rparr>),
    (''starlight/src/content/docs/simple-dto/security-visibility.md'',
     \<lparr>examples = [
        (''Visibility Hidden'', ''examples/simple-dto/security-visibility/visibility-hidden.php'',
          ''Hiding properties''),
        (''Visibility Context'', ''examples/simple-dto/security-visibility/visibility-context.php'',
          ''Context-based visibility''),
        (''Visibility Explained'', ''examples/simple-dto/security-visibility/visibility-explained.php'',
          ''Detailed explanation''),
        (''Real World Example'', ''examples/simple-dto/security-visibility/visibility-real-world.php'',
          ''Practical use case''),
        (''Static Provider'', ''examples/simple-dto/security-visibility/visibility-static-provider.php'',
          ''Static visibility provider'')
      ],
      tests = [
        ''tests/Unit/SimpleDTO/VisibilityTest.php - Visibility tests''
      ],
      test_filter = ''Visibility''\<rparr>),
    (''starlight/src/content/docs/simple-dto/typescript-generation.md'',
     \<lparr>examples = [
        (''Basic Generation'', ''examples/simple-dto/typescript-generation/basic-generation.php'',
          ''Generate TypeScript types''),
        (''Generator Options'', ''examples/simple-dto/typescript-generation/generator-options.php'',
          ''Customizing generation'')
      ],
      tests = [
        ''tests/Unit/SimpleDTO/TypeScriptGeneratorTest.php - TypeScript generation tests''
      ],
      test_filter = ''TypeScript''\<rparr>),
    (''starlight/src/content/docs/simple-dto/serialization.md'',
     \<lparr>examples = [
        (''Serializers'', ''examples/simple-dto/serialization/serializers.php'',
          ''Serialization examples''),
        (''Transformers'', ''examples/simple-dto/serialization/transformers.php'',
          ''Data transformation''),
        (''Normalizers'', ''examples/simple-dto/serialization/normalizers.php'',
          ''Data normalization''),
        (''Serializer Options'', ''examples/simple-dto/serialization/serializer-options.php'',
          ''Customizing serialization'')
      ],
      tests = [
        ''tests/Unit/SimpleDTO/SerializationTest.php - Serialization tests''
      ],
      test_filter = ''Serialization''\<rparr>),
    (''starlight/src/content/docs/simple-dto/property-mapping.md'',
     \<lparr>examples = [
        (''Basic Mapping'', ''examples/simple-dto/property-mapping/basic-mapping.php'',
          ''Property name mapping'')
      ],
      tests = [
        ''tests/Unit/SimpleDTO/PropertyMappingTest.php - Property mapping tests''
      ],
      test_filter = ''PropertyMapping''\<rparr>),
    (''starlight/src/content/docs/framework-integration/symfony.md'',
     \<lparr>examples = [
        (''Symfony Doctrine'', ''examples/framework-integration/symfony/symfony-doctrine.php'',
          ''Symfony with Doctrine'')
      ],
      tests = [
        ''tests/Unit/Frameworks/Symfony/SymfonyIntegrationTest.php - Symfony integration tests'',
        ''tests-e2e/Symfony/ - End-to-end Symfony tests''
      ],
      test_filter = ''Symfony''\<rparr>),
    (''starlight/src/content/docs/framework-integration/doctrine.md'',
     \<lparr>examples = [
        (''Doctrine Integration'', ''examples/framework-integration/doctrine/doctrine-integration.php'',
          ''Working with Doctrine entities'')
      ],
      tests = [
        ''tests/Unit/DataAccessor/DataAccessorDoctrineTest.php - Doctrine tests'',
        ''tests/Unit/DataMutator/DataMutatorDoctrineTest.php - Doctrine mutator tests''
      ],
      test_filter = ''Doctrine''\<rparr>)
  ]"


section \<open>The generated sections\<close>

text \<open>The loop \<^verbatim>\<open>for title, path, desc in config["examples"]\<close>, appending one bullet.\<close>

definition example_bullet :: "string \<times> string \<times> string \<Rightarrow> string" where
  "example_bullet e =
     (case e of (title, path, desc) \<Rightarrow>
        ''- [**'' @ title @ ''**](https://github.com/event4u-app/data-helpers/blob/main/''
          @ path @ '') - '' @ desc @ ''\<newline>'')"

fun examples_loop :: "string \<Rightarrow> (string \<times> string \<times> string) list \<Rightarrow> string" where
  "examples_loop examples_section [] = examples_section"
| "examples_loop examples_section (e # rest) =
     examples_loop (examples_section @ example_bullet e) rest"

definition examples_section :: "page_config \<Rightarrow> string" where
  "examples_section config =
     examples_loop
       ''\<newline>## Code Examples\<newline>\<newline>The following working examples demonstrate this feature:\<newline>\<newline>''
       (examples config)
     @ ''\<newline>All examples are fully tested and can be run directly.\<newline>''"

text \<open>
  The body of the loop \<^verbatim>\<open>for test in config["tests"]\<close>. The test \<^verbatim>\<open>" - " in test\<close>
  holds exactly when \<^const>\<open>split_once\<close> finds the separator, and then
  \<^verbatim>\<open>test.split(" - ", 1)\<close> is the pair it returns.
\<close>

definition test_bullet :: "string \<Rightarrow> string" where
  "test_bullet test =
     (case split_once '' - '' test of
        Some (p, d) \<Rightarrow>
          (let test_path = strip p;
               test_desc = strip d;
               test_filename = last (split_char CHR ''/'' test_path)
           in ''- ['' @ test_filename
                @ ''](https://github.com/event4u-app/data-helpers/blob/main/''
                @ test_path @ '') - '' @ test_desc @ ''\<newline>'')
      | None \<Rightarrow>
          (let test_path = strip test;
               test_filename = last (split_char CHR ''/'' test_path)
           in ''- ['' @ test_filename
                @ ''](https://github.com/event4u-app/data-helpers/blob/main/''
                @ test_path @ '')\<newline>''))"

fun tests_loop :: "string \<Rightarrow> string list \<Rightarrow> string" where
  "tests_loop tests_section [] = tests_section"
| "tests_loop tests_section (test # rest) =
     tests_loop (tests_section @ test_bullet test) rest"

definition tests_section :: "page_config \<Rightarrow> string" where
  "tests_section config =
     tests_loop
       ''\<newline>## Related Tests\<newline>\<newline>The functionality is thoroughly tested. Key test files:\<newline>\<newline>''
       (tests config)
     @ ''\<newline>Run the tests:\<newline>\<newline>```bash\<newline># Run tests\<newline>task test:unit -- --filter=''
     @ test_filter config @ ''\<newline>```\<newline>''"

text \<open>The text that \<^verbatim>\<open>add_sections_to_file\<close> writes back, from the text it read.\<close>

definition new_content :: "page_config \<Rightarrow> string \<Rightarrow> string" where
  "new_content config content =
     replace_str ''## See Also''
       (examples_section config @ tests_section config @ ''\<newline>## See Also'') content"


section \<open>Files, console and the two functions of the script\<close>

text \<open>
  The script opens its files in text mode without a \<^verbatim>\<open>newline\<close> argument. Reading
  then gives the text with universal newlines: a carriage return followed by a line
  feed, and a carriage return alone, are each read as one line feed.
\<close>

fun universal_newlines :: "string \<Rightarrow> string" where
  "universal_newlines [] = []"
| "universal_newlines [c] = (if c = CHR 0x0D then [CHR 0x0A] else [c])"
| "universal_newlines (c # d # cs) =
     (if c = CHR 0x0D
      then (if d = CHR 0x0A then CHR 0x0A # universal_newlines cs
            else CHR 0x0A # universal_newlines (d # cs))
      else c # universal_newlines (d # cs))"

text \<open>
  Writing in that mode puts the platform's line separator (\<^verbatim>\<open>os.linesep\<close>) in the
  place of every line feed of the written text.
\<close>

definition write_newlines :: "string \<Rightarrow> string \<Rightarrow> string" where
  "write_newlines sep s = concat (map (\<lambda>c. if c = CHR 0x0A then sep else [c]) s)"

text \<open>
  The world the script acts on: the files under their paths with the text they hold on
  disk, the platform's line separator, and the lines printed so far. A file can be read
  when it exists and is readable; opening it for writing fails when it exists and is not
  writable, and creates it when it does not exist. A write that succeeds replaces the
  whole text. Decoding errors and writes that fail half way are outside the model.

  The printed lines are kept as values that carry what the format strings insert:
  \<open>Banner\<close> is the first line of \<^verbatim>\<open>main\<close>, \<open>Skipping\<close> the line of the document that
  already has an examples section, \<open>NoSeeAlso\<close> the line of the document without a
  \<^verbatim>\<open>See Also\<close> section, \<open>Updated\<close> the line of the rewritten document, and \<open>Summary\<close>
  the last line of \<^verbatim>\<open>main\<close> with its count.
\<close>

datatype error = FileNotFoundError string | PermissionError string

record doc_file =
  contents :: string
  readable :: bool
  writable :: bool

datatype message =
    Banner
  | Skipping string
  | NoSeeAlso string
  | Updated string
  | Summary int

record world =
  files :: "string \<rightharpoonup> doc_file"
  linesep :: string
  out :: "message list"

definition print_line :: "message \<Rightarrow> world \<Rightarrow> world" where
  "print_line m w = w\<lparr>out := out w @ [m]\<rparr>"

definition read_file :: "string \<Rightarrow> world \<Rightarrow> error + string" where
  "read_file file_path w =
     (case files w file_path of
        None \<Rightarrow> Inl (FileNotFoundError file_path)
      | Some f \<Rightarrow> if readable f then Inr (universal_newlines (contents f))
          else Inl (PermissionError file_path))"

definition write_file :: "string \<Rightarrow> string \<Rightarrow> world \<Rightarrow> (error + unit) \<times> world" where
  "write_file file_path s w =
     (case files w file_path of
        None \<Rightarrow>
          (Inr (), w\<lparr>files := (files w)(file_path \<mapsto>
                      \<lparr>contents = write_newlines (linesep w) s,
                       readable = True, writable = True\<rparr>)\<rparr>)
      | Some f \<Rightarrow>
          if writable f
          then (Inr (), w\<lparr>files := (files w)(file_path \<mapsto>
                           f\<lparr>contents := write_newlines (linesep w) s\<rparr>)\<rparr>)
          else (Inl (PermissionError file_path), w))"

text \<open>
  \<^verbatim>\<open>add_sections_to_file\<close>: an exception leaves the function with the world as it is at
  that point (\<open>Inl\<close>); otherwise the function returns \<^verbatim>\<open>True\<close> or \<^verbatim>\<open>False\<close>.
\<close>

definition add_sections_to_file ::
  "string \<Rightarrow> page_config \<Rightarrow> world \<Rightarrow> (error + bool) \<times> world" where
  "add_sections_to_file file_path config w =
     (case read_file file_path w of
        Inl e \<Rightarrow> (Inl e, w)
      | Inr content \<Rightarrow>
          if str_contains ''## Code Examples'' content
            then (Inr False, print_line (Skipping file_path) w)
          else if \<not> str_contains ''## See Also'' content
            then (Inr False, print_line (NoSeeAlso file_path) w)
          else
            (case write_file file_path (new_content config content) w of
               (Inl e, w') \<Rightarrow> (Inl e, w')
             | (Inr u, w') \<Rightarrow> (Inr True, print_line (Updated file_path) w')))"

text \<open>
  \<^verbatim>\<open>main\<close>: the loop over the table has no \<^verbatim>\<open>try\<close>, so an exception of
  \<^verbatim>\<open>add_sections_to_file\<close> leaves the loop and \<^verbatim>\<open>main\<close>.
\<close>

fun main_loop :: "(string \<times> page_config) list \<Rightarrow> int \<Rightarrow> world \<Rightarrow> (error + int) \<times> world" where
  "main_loop [] updated_count w = (Inr updated_count, w)"
| "main_loop ((file_path, config) # rest) updated_count w =
     (case add_sections_to_file file_path config w of
        (Inl e, w') \<Rightarrow> (Inl e, w')
      | (Inr updated, w') \<Rightarrow>
          main_loop rest (if updated then updated_count + 1 else updated_count) w')"

definition main :: "world \<Rightarrow> (error + unit) \<times> world" where
  "main w =
     (case main_loop DOCS_CONFIG 0 (print_line Banner w) of
        (Inl e, w') \<Rightarrow> (Inl e, w')
      | (Inr updated_count, w') \<Rightarrow> (Inr (), print_line (Summary updated_count) w'))"


section \<open>Notions of the specification\<close>

text \<open>
  The final path segment of a relative path, in the specification's words: everything
  after the last path separator (the whole path when it has none).
\<close>

definition last_path_segment :: "string \<Rightarrow> string" where
  "last_path_segment p = rev (takeWhile (\<lambda>c. c \<noteq> CHR ''/'') (rev p))"

text \<open>
  Single-replace semantics, in the specification's words: the first occurrence of the
  anchor becomes the inserted text followed by the anchor, and the rest stays.
\<close>

definition splice_first :: "'a list \<Rightarrow> 'a list \<Rightarrow> 'a list \<Rightarrow> 'a list" where
  "splice_first anchor ins s =
     (case split_once anchor s of
        None \<Rightarrow> s
      | Some (before, after) \<Rightarrow> before @ ins @ anchor @ after)"

text \<open>
  The pieces of a text between the occurrences of a pattern, the occurrences found from
  the left and not overlapping, and the text put together again with a separator between
  the pieces.
\<close>

function pieces :: "'a list \<Rightarrow> 'a list \<Rightarrow> 'a list list" where
  "pieces pat s =
     (case str_find pat s of
        None \<Rightarrow> [s]
      | Some i \<Rightarrow>
          if pat = [] then [s]
          else take i s # pieces pat (drop (i + length pat) s))"
  by pat_completeness auto
termination
proof (relation "measure (\<lambda>(pat, s). length s)")
  show "wf (measure (\<lambda>(pat, s). length s))" by simp
next
  fix pat s :: "'a list" and i :: nat
  assume "str_find pat s = Some i" "pat \<noteq> []"
  then have "s \<noteq> []" by (cases s) auto
  with \<open>pat \<noteq> []\<close> have "length s - (i + length pat) < length s" by (cases s) auto
  then show "((pat, drop (i + length pat) s), (pat, s)) \<in> measure (\<lambda>(pat, s). length s)"
    by simp
qed

declare pieces.simps [simp del]

fun join :: "'a list \<Rightarrow> 'a list list \<Rightarrow> 'a list" where
  "join sep [] = []"
| "join sep [x] = x"
| "join sep (x # y # ys) = x @ sep @ join sep (y # ys)"

text \<open>
  A command fence that holds the test command as its single line, as the specification
  describes the end of the tests block.
\<close>

definition single_line_fence :: "string \<Rightarrow> string" where
  "single_line_fence label =
     ''```bash\<newline>task test:unit -- --filter='' @ label @ ''\<newline>```\<newline>''"


section \<open>Facts about the string operations\<close>

lemma str_contains_sublist: "str_contains pat s \<longleftrightarrow> sublist pat s"
  unfolding str_contains_def
  by (induction s) (auto simp: sublist_Cons_right)

lemma str_find_prefix: "str_find pat s = Some i \<Longrightarrow> prefix pat (drop i s) \<and> i \<le> length s"
  by (induction s arbitrary: i) (auto split: if_splits)

lemma str_find_least: "str_find pat s = Some i \<Longrightarrow> j < i \<Longrightarrow> \<not> prefix pat (drop j s)"
proof (induction s arbitrary: i j)
  case Nil
  then show ?case by (simp split: if_splits)
next
  case (Cons c cs)
  then show ?case by (cases j) (auto split: if_splits)
qed

lemma str_find_split:
  "str_find pat s = Some i \<Longrightarrow> s = take i s @ pat @ drop (i + length pat) s"
proof -
  assume "str_find pat s = Some i"
  then have "prefix pat (drop i s)" by (simp add: str_find_prefix)
  then obtain r where r: "drop i s = pat @ r" by (auto simp: prefix_def)
  then have "drop (i + length pat) s = r"
    by (metis add.commute append_eq_conv_conj drop_drop)
  with r show ?thesis by (metis append_take_drop_id)
qed

lemma str_find_Nil_pat: "str_find [] s = Some 0"
  by (cases s) simp_all

lemma replace_str_absent: "str_find pat s = None \<Longrightarrow> replace_str pat rep s = s"
  by (induction s) (auto split: if_splits)

lemma replace_str_found:
  "pat \<noteq> [] \<Longrightarrow> str_find pat s = Some i \<Longrightarrow>
   replace_str pat rep s = take i s @ rep @ replace_str pat rep (drop (i + length pat) s)"
proof (induction s arbitrary: i)
  case Nil
  then show ?case by simp
next
  case (Cons c cs)
  show ?case
  proof (cases "prefix pat (c # cs)")
    case True
    with Cons.prems show ?thesis by simp
  next
    case False
    with Cons.prems obtain k where k: "str_find pat cs = Some k" "i = Suc k" by auto
    with Cons.IH [OF Cons.prems(1) k(1)] False Cons.prems(1) show ?thesis by simp
  qed
qed

lemma take_no_occurrence:
  assumes "pat \<noteq> []" "str_find pat s = Some i"
  shows "\<not> str_contains pat (take i s)"
proof
  assume "str_contains pat (take i s)"
  then obtain x y where xy: "take i s = x @ pat @ y"
    by (auto simp: str_contains_sublist sublist_def)
  have "length (take i s) \<le> i" by simp
  with xy assms(1) have lt: "length x < i" by (cases pat) auto
  have "s = x @ pat @ y @ drop i s" using xy by (metis append_take_drop_id append_assoc)
  then have "drop (length x) s = pat @ y @ drop i s" by (metis append_eq_conv_conj)
  then have "prefix pat (drop (length x) s)" by simp
  with str_find_least [OF assms(2) lt] show False by simp
qed

lemma split_char_not_Nil: "split_char d s \<noteq> []"
  by (induction s) (auto split: list.splits)

lemma split_char_absent: "d \<notin> set s \<Longrightarrow> split_char d s = [s]"
  by (induction s) auto

lemma split_char_single: "split_char d s = [x] \<Longrightarrow> d \<notin> set s"
proof (induction s arbitrary: x)
  case Nil
  then show ?case by simp
next
  case (Cons c cs)
  show ?case
  proof (cases "c = d")
    case True
    with Cons.prems show ?thesis by (simp add: split_char_not_Nil)
  next
    case False
    with Cons.prems obtain y where "split_char d cs = [y]"
      by (auto simp: split_char_not_Nil split: list.splits)
    with Cons.IH False show ?thesis by auto
  qed
qed

lemma last_split_char: "last (split_char d s) = rev (takeWhile (\<lambda>c. c \<noteq> d) (rev s))"
proof (induction s)
  case Nil
  then show ?case by simp
next
  case (Cons c cs)
  show ?case
  proof (cases "c = d")
    case True
    with Cons.IH show ?thesis by (simp add: split_char_not_Nil takeWhile_tail)
  next
    case False
    show ?thesis
    proof (cases "d \<in> set cs")
      case True
      obtain x xs where sp: "split_char d cs = x # xs" 
        using split_char_not_Nil [of d cs] by (cases "split_char d cs") auto
      with True have "xs \<noteq> []" using split_char_single [of d cs x] by auto
      with sp False have "last (split_char d (c # cs)) = last (split_char d cs)" by simp
      also have "\<dots> = rev (takeWhile (\<lambda>c. c \<noteq> d) (rev cs))" by (rule Cons.IH)
      also have "\<dots> = rev (takeWhile (\<lambda>c. c \<noteq> d) (rev (c # cs)))"
        using True by (simp add: takeWhile_append1)
      finally show ?thesis .
    next
      case d: False
      with False have notin: "d \<notin> set (c # cs)" by simp
      then have tw: "takeWhile (\<lambda>c. c \<noteq> d) (rev (c # cs)) = rev (c # cs)"
        unfolding takeWhile_eq_all_conv by auto
      have "last (split_char d (c # cs)) = c # cs"
        using notin by (simp add: split_char_absent del: split_char.simps)
      also have "\<dots> = rev (takeWhile (\<lambda>c. c \<noteq> d) (rev (c # cs)))"
        by (simp only: tw rev_rev_ident)
      finally show ?thesis .
    qed
  qed
qed

lemma examples_loop_concat: "examples_loop acc es = acc @ concat (map example_bullet es)"
  by (induction es arbitrary: acc) auto

lemma tests_loop_concat: "tests_loop acc ts = acc @ concat (map test_bullet ts)"
  by (induction ts arbitrary: acc) auto

section \<open>Facts about reading and writing in text mode\<close>

lemma universal_newlines_other:
  "c \<noteq> CHR 0x0D \<Longrightarrow> universal_newlines (c # cs) = c # universal_newlines cs"
  by (cases cs) simp_all

lemma universal_newlines_CR:
  "\<exists>r. universal_newlines (CHR 0x0D # cs) = CHR 0x0A # r"
  by (cases cs) simp_all

lemma prefix_universal_newlines:
  "CHR 0x0D \<notin> set pat \<Longrightarrow> CHR 0x0A \<notin> set pat \<Longrightarrow>
   prefix pat (universal_newlines s) \<longleftrightarrow> prefix pat s"
proof (induction pat arbitrary: s)
  case Nil
  then show ?case by simp
next
  case (Cons p ps)
  show ?case
  proof (cases s)
    case Nil
    then show ?thesis by simp
  next
    case (Cons c cs)
    show ?thesis
    proof (cases "c = CHR 0x0D")
      case True
      obtain r where "universal_newlines (CHR 0x0D # cs) = CHR 0x0A # r"
        using universal_newlines_CR by blast
      with True Cons Cons.prems show ?thesis by auto
    next
      case False
      with Cons Cons.prems Cons.IH [of cs] show ?thesis
        by (simp add: universal_newlines_other)
    qed
  qed
qed

lemma sublist_universal_newlines:
  assumes "CHR 0x0D \<notin> set pat" and "CHR 0x0A \<notin> set pat"
  shows "sublist pat (universal_newlines s) \<longleftrightarrow> sublist pat s"
proof (cases "pat = []")
  case True
  then show ?thesis by simp
next
  case False
  then obtain p ps where pat: "pat = p # ps" by (cases pat) auto
  with assms have p: "p \<noteq> CHR 0x0D" "p \<noteq> CHR 0x0A" by auto
  show ?thesis
  proof (induction s rule: universal_newlines.induct)
    case 1
    then show ?case by simp
  next
    case (2 c)
    with pat p show ?case by (auto simp: sublist_Cons_right)
  next
    case (3 c d cs)
    show ?case
    proof (cases "c = CHR 0x0D")
      case True
      with 3 pat p show ?thesis by (auto simp: sublist_Cons_right)
    next
      case False
      have "prefix pat (c # universal_newlines (d # cs)) \<longleftrightarrow> prefix pat (c # d # cs)"
        using prefix_universal_newlines [OF assms, of "c # d # cs"] False by simp
      with 3 False show ?thesis by (simp add: sublist_Cons_right)
    qed
  qed
qed

lemma str_contains_universal_newlines:
  "CHR 0x0D \<notin> set pat \<Longrightarrow> CHR 0x0A \<notin> set pat \<Longrightarrow>
   str_contains pat (universal_newlines s) \<longleftrightarrow> str_contains pat s"
  by (simp add: str_contains_sublist sublist_universal_newlines)



lemma write_newlines_LF: "write_newlines ''\<newline>'' s = s"
  by (induction s) (auto simp: write_newlines_def)

lemma universal_newlines_no_CR: "CHR 0x0D \<notin> set s \<Longrightarrow> universal_newlines s = s"
  by (induction s) (auto simp: universal_newlines_other)


lemma last_segment_is_last_split:
  "last (split_char CHR ''/'' p) = last_path_segment p"
  by (simp add: last_split_char last_path_segment_def)

lemma last_path_segment_trailing_slash:
  "p \<noteq> [] \<Longrightarrow> last p = CHR ''/'' \<Longrightarrow> last_path_segment p = []"
  by (cases p rule: rev_cases) (simp_all add: last_path_segment_def)


section \<open>The generated blocks\<close>

text \<open>
  Claim C9. The examples block is the header with its introductory sentence, then one
  bullet line for each element of the config's examples, in the order of that sequence,
  then the closing sentence; the bullet of an example is its title in bold as the label
  of a link to the base address followed by its path, then the description. The tests
  block is the header with its introductory sentence, then one bullet line for each
  element of the config's tests, in the order of that sequence, then the command trailer;
  the bullet of a test is the final segment of its path as the label of a link to the
  base address followed by the path, then the description when the entry has one.
\<close>

theorem bullets_follow_config_order:
  "examples_section config =
     ''\<newline>## Code Examples\<newline>\<newline>The following working examples demonstrate this feature:\<newline>\<newline>''
     @ concat (map
        (\<lambda>(title, path, desc).
          ''- [**'' @ title @ ''**](https://github.com/event4u-app/data-helpers/blob/main/'' @ path
          @ '') - '' @ desc @ ''\<newline>'')
        (examples config))
     @ ''\<newline>All examples are fully tested and can be run directly.\<newline>''
   \<and> tests_section config =
     ''\<newline>## Related Tests\<newline>\<newline>The functionality is thoroughly tested. Key test files:\<newline>\<newline>''
     @ concat (map
        (\<lambda>test.
          case split_once '' - '' test of
            Some (p, d) \<Rightarrow>
              ''- ['' @ last_path_segment (strip p)
              @ ''](https://github.com/event4u-app/data-helpers/blob/main/'' @ strip p
              @ '') - '' @ strip d @ ''\<newline>''
          | None \<Rightarrow>
              ''- ['' @ last_path_segment (strip test)
              @ ''](https://github.com/event4u-app/data-helpers/blob/main/'' @ strip test
              @ '')\<newline>'')
        (tests config))
     @ ''\<newline>Run the tests:\<newline>\<newline>```bash\<newline># Run tests\<newline>task test:unit -- --filter=''
     @ test_filter config @ ''\<newline>```\<newline>''"
proof -
  have e: "example_bullet =
        (\<lambda>(title, path, desc).
          ''- [**'' @ title @ ''**](https://github.com/event4u-app/data-helpers/blob/main/'' @ path
          @ '') - '' @ desc @ ''\<newline>'')"
    by (simp add: example_bullet_def fun_eq_iff)
  have t: "test_bullet =
        (\<lambda>test.
          case split_once '' - '' test of
            Some (p, d) \<Rightarrow>
              ''- ['' @ last_path_segment (strip p)
              @ ''](https://github.com/event4u-app/data-helpers/blob/main/'' @ strip p
              @ '') - '' @ strip d @ ''\<newline>''
          | None \<Rightarrow>
              ''- ['' @ last_path_segment (strip test)
              @ ''](https://github.com/event4u-app/data-helpers/blob/main/'' @ strip test
              @ '')\<newline>'')"
    by (auto simp: test_bullet_def Let_def last_segment_is_last_split fun_eq_iff
             split: option.splits)
  show ?thesis
    unfolding examples_section_def tests_section_def examples_loop_concat tests_loop_concat e t
    by simp
qed

theorem bullets_follow_config_order_witness:
  "examples_section
       (\<lparr>examples = [(''Basic Casts'', ''examples/basic-casts.php'', ''Common type casts''),
                   (''All Casts'', ''examples/all-casts.php'', ''Complete cast overview'')],
        tests = [''tests/Unit/CastTest.php - Cast functionality tests'',
                 ''tests/Unit/EnumCastTest.php''],
        test_filter = ''Cast''\<rparr>)
     = ''\<newline>## Code Examples\<newline>\<newline>The following working examples demonstrate this feature:\<newline>\<newline>- [**Basic Casts**](https://github.com/event4u-app/data-helpers/blob/main/examples/basic-casts.php) - Common type casts\<newline>- [**All Casts**](https://github.com/event4u-app/data-helpers/blob/main/examples/all-casts.php) - Complete cast overview\<newline>\<newline>All examples are fully tested and can be run directly.\<newline>''
   \<and> tests_section
       (\<lparr>examples = [(''Basic Casts'', ''examples/basic-casts.php'', ''Common type casts''),
                   (''All Casts'', ''examples/all-casts.php'', ''Complete cast overview'')],
        tests = [''tests/Unit/CastTest.php - Cast functionality tests'',
                 ''tests/Unit/EnumCastTest.php''],
        test_filter = ''Cast''\<rparr>)
     = ''\<newline>## Related Tests\<newline>\<newline>The functionality is thoroughly tested. Key test files:\<newline>\<newline>- [CastTest.php](https://github.com/event4u-app/data-helpers/blob/main/tests/Unit/CastTest.php) - Cast functionality tests\<newline>- [EnumCastTest.php](https://github.com/event4u-app/data-helpers/blob/main/tests/Unit/EnumCastTest.php)\<newline>\<newline>Run the tests:\<newline>\<newline>```bash\<newline># Run tests\<newline>task test:unit -- --filter=Cast\<newline>```\<newline>''"
proof -
  have a: "split_once '' - '' ''tests/Unit/CastTest.php - Cast functionality tests''
             = Some (''tests/Unit/CastTest.php'', ''Cast functionality tests'')"
    "split_once '' - '' ''tests/Unit/EnumCastTest.php'' = None"
    by code_simp+
  have b: "strip ''tests/Unit/CastTest.php'' = ''tests/Unit/CastTest.php''"
    "strip ''Cast functionality tests'' = ''Cast functionality tests''"
    "strip ''tests/Unit/EnumCastTest.php'' = ''tests/Unit/EnumCastTest.php''"
    by code_simp+
  have c: "last_path_segment ''tests/Unit/CastTest.php'' = ''CastTest.php''"
    "last_path_segment ''tests/Unit/EnumCastTest.php'' = ''EnumCastTest.php''"
    by code_simp+
  show ?thesis
    using bullets_follow_config_order [of
      "\<lparr>examples = [(''Basic Casts'', ''examples/basic-casts.php'', ''Common type casts''),
                   (''All Casts'', ''examples/all-casts.php'', ''Complete cast overview'')],
        tests = [''tests/Unit/CastTest.php - Cast functionality tests'',
                 ''tests/Unit/EnumCastTest.php''],
        test_filter = ''Cast''\<rparr>"]
    by (simp add: a b c)
qed

text \<open>
  Claim C8. A config with no examples gives an examples block made of the header, the
  introductory sentence and the closing sentence, with no bullet line; a config with no
  tests gives a tests block made of the header, the introductory sentence and the command
  trailer, with no bullet line.
\<close>

theorem empty_lists_give_no_bullets:
  "(examples config = [] \<longrightarrow>
      examples_section config =
        ''\<newline>## Code Examples\<newline>\<newline>The following working examples demonstrate this feature:\<newline>\<newline>''
        @ ''\<newline>All examples are fully tested and can be run directly.\<newline>'')
   \<and> (tests config = [] \<longrightarrow>
      tests_section config =
        ''\<newline>## Related Tests\<newline>\<newline>The functionality is thoroughly tested. Key test files:\<newline>\<newline>''
        @ ''\<newline>Run the tests:\<newline>\<newline>```bash\<newline># Run tests\<newline>task test:unit -- --filter=''
        @ test_filter config @ ''\<newline>```\<newline>'')"
  by (simp add: examples_section_def tests_section_def)

theorem empty_lists_give_no_bullets_witness:
  "examples \<lparr>examples = [], tests = [], test_filter = ''Cast''\<rparr> = []
   \<and> tests \<lparr>examples = [], tests = [], test_filter = ''Cast''\<rparr> = []
   \<and> examples_section \<lparr>examples = [], tests = [], test_filter = ''Cast''\<rparr> =
        ''\<newline>## Code Examples\<newline>\<newline>The following working examples demonstrate this feature:\<newline>\<newline>\<newline>All examples are fully tested and can be run directly.\<newline>''
   \<and> tests_section \<lparr>examples = [], tests = [], test_filter = ''Cast''\<rparr> =
        ''\<newline>## Related Tests\<newline>\<newline>The functionality is thoroughly tested. Key test files:\<newline>\<newline>\<newline>Run the tests:\<newline>\<newline>```bash\<newline># Run tests\<newline>task test:unit -- --filter=Cast\<newline>```\<newline>''"
  using empty_lists_give_no_bullets
          [of "\<lparr>examples = [], tests = [], test_filter = ''Cast''\<rparr>"]
  by simp

text \<open>
  Claim C4, as stated: the tests block ends with a fence whose only line is the test
  command. It does not: the template puts the comment line \<^verbatim>\<open># Run tests\<close> inside the
  fence, before the command.
\<close>

theorem single_line_fence_counterexample:
  "\<not> suffix (single_line_fence ''Cast'')
        (tests_section \<lparr>examples = [], tests = [], test_filter = ''Cast''\<rparr>)"
  by code_simp

text \<open>
  Claim C4, amended. For every config the tests block ends with a fence of two lines:
  the comment line \<^verbatim>\<open># Run tests\<close>, then the line
  \<^verbatim>\<open>task test:unit -- --filter=\<close> followed by the config's \<^verbatim>\<open>test_filter\<close>, unchanged.
\<close>

theorem tests_block_ends_with_command_fence:
  "suffix (''```bash\<newline># Run tests\<newline>task test:unit -- --filter='' @ test_filter config
             @ ''\<newline>```\<newline>'')
          (tests_section config)"
  unfolding tests_section_def suffix_def by simp


section \<open>The bullets of the tests block\<close>

text \<open>
  Claim C5. The link label of a test bullet is the final path segment of the test's
  relative path, computed from the string alone. An entry with a description (the
  entry holds the separator \<^verbatim>\<open>" - "\<close>) gives the link, then \<^verbatim>\<open>" - "\<close> and the
  description; an entry without one gives the link and nothing after it on the line.
\<close>

theorem test_bullet_label:
  "(\<forall>p d. split_once '' - '' test = Some (p, d) \<longrightarrow>
      test_bullet test =
        ''- ['' @ last_path_segment (strip p)
        @ ''](https://github.com/event4u-app/data-helpers/blob/main/'' @ strip p
        @ '') - '' @ strip d @ ''\<newline>'')
   \<and> (split_once '' - '' test = None \<longrightarrow>
      test_bullet test =
        ''- ['' @ last_path_segment (strip test)
        @ ''](https://github.com/event4u-app/data-helpers/blob/main/'' @ strip test
        @ '')\<newline>'')"
  by (simp add: test_bullet_def Let_def last_segment_is_last_split)

theorem test_bullet_label_witness:
  "split_once '' - '' ''tests/Unit/ValidationModesTest.php - Validation mode tests''
     = Some (''tests/Unit/ValidationModesTest.php'', ''Validation mode tests'')
   \<and> test_bullet ''tests/Unit/ValidationModesTest.php - Validation mode tests''
     = ''- [ValidationModesTest.php](https://github.com/event4u-app/data-helpers/blob/main/tests/Unit/ValidationModesTest.php) - Validation mode tests\<newline>''
   \<and> split_once '' - '' ''tests/T.php '' = None
   \<and> test_bullet ''tests/T.php ''
     = ''- [T.php](https://github.com/event4u-app/data-helpers/blob/main/tests/T.php)\<newline>''"
proof -
  have a: "split_once '' - '' ''tests/Unit/ValidationModesTest.php - Validation mode tests''
     = Some (''tests/Unit/ValidationModesTest.php'', ''Validation mode tests'')"
    by code_simp
  have b: "split_once '' - '' ''tests/T.php '' = None" by code_simp
  have c: "strip ''tests/Unit/ValidationModesTest.php'' = ''tests/Unit/ValidationModesTest.php''"
    "strip ''Validation mode tests'' = ''Validation mode tests''"
    "strip ''tests/T.php '' = ''tests/T.php''"
    by code_simp+
  have d: "last_path_segment ''tests/Unit/ValidationModesTest.php'' = ''ValidationModesTest.php''"
    "last_path_segment ''tests/T.php'' = ''T.php''"
    by code_simp+
  show ?thesis
    using test_bullet_label
            [of "''tests/Unit/ValidationModesTest.php - Validation mode tests''"]
          test_bullet_label [of "''tests/T.php ''"]
    by (simp add: a b c d)
qed

text \<open>
  Claim C10. When the relative path of an entry ends with the path separator, as in the
  configured entry \<^verbatim>\<open>"tests-e2e/Symfony/ - End-to-end Symfony tests"\<close>, the link label
  is empty: the bullet is \<^verbatim>\<open>- [](url) - description\<close>.
\<close>

theorem trailing_slash_gives_empty_label:
  "strip p \<noteq> [] \<Longrightarrow> last (strip p) = CHR ''/'' \<Longrightarrow>
   split_once '' - '' test = Some (p, d) \<Longrightarrow>
   test_bullet test =
     ''- [](https://github.com/event4u-app/data-helpers/blob/main/'' @ strip p
     @ '') - '' @ strip d @ ''\<newline>''"
  by (simp add: test_bullet_def Let_def last_segment_is_last_split last_path_segment_trailing_slash)

theorem trailing_slash_gives_empty_label_witness:
  "strip ''tests-e2e/Symfony/'' \<noteq> []
   \<and> last (strip ''tests-e2e/Symfony/'') = CHR ''/''
   \<and> split_once '' - '' ''tests-e2e/Symfony/ - End-to-end Symfony tests''
       = Some (''tests-e2e/Symfony/'', ''End-to-end Symfony tests'')
   \<and> ''tests-e2e/Symfony/ - End-to-end Symfony tests''
       \<in> set (tests (snd (DOCS_CONFIG ! 10)))
   \<and> test_bullet ''tests-e2e/Symfony/ - End-to-end Symfony tests''
       = ''- [](https://github.com/event4u-app/data-helpers/blob/main/tests-e2e/Symfony/) - End-to-end Symfony tests\<newline>''"
proof -
  have a: "strip ''tests-e2e/Symfony/'' \<noteq> []" by code_simp
  have b: "last (strip ''tests-e2e/Symfony/'') = CHR ''/''" by code_simp
  have c: "split_once '' - '' ''tests-e2e/Symfony/ - End-to-end Symfony tests''
       = Some (''tests-e2e/Symfony/'', ''End-to-end Symfony tests'')" by code_simp
  have d: "''tests-e2e/Symfony/ - End-to-end Symfony tests''
       \<in> set (tests (snd (DOCS_CONFIG ! 10)))" by code_simp
  have e: "strip ''tests-e2e/Symfony/'' = ''tests-e2e/Symfony/''"
    "strip ''End-to-end Symfony tests'' = ''End-to-end Symfony tests''"
    by code_simp+
  show ?thesis
    using trailing_slash_gives_empty_label [OF a b c] a b c d by (simp add: e)
qed

section \<open>Facts about the injector and the batch driver\<close>

lemma files_print_line: "files (print_line m w) = files w"
  by (simp add: print_line_def)



lemma pieces_not_Nil: "pieces pat s \<noteq> []"
  by (subst pieces.simps) (simp split: option.splits)

lemma join_Cons: "xs \<noteq> [] \<Longrightarrow> join sep (x # xs) = x @ sep @ join sep xs"
  by (cases xs) simp_all

lemma replace_str_join_pieces:
  "pat \<noteq> [] \<Longrightarrow> replace_str pat rep s = join rep (pieces pat s)"
proof (induction pat s rule: pieces.induct)
  case (1 pat s)
  show ?case
  proof (cases "str_find pat s")
    case None
    then show ?thesis by (subst pieces.simps) (simp add: replace_str_absent)
  next
    case (Some i)
    with "1.prems" have "replace_str pat rep (drop (i + length pat) s)
                          = join rep (pieces pat (drop (i + length pat) s))"
      by (intro "1.IH") auto
    with Some "1.prems" show ?thesis
      by (subst pieces.simps) (simp add: replace_str_found join_Cons pieces_not_Nil)
  qed
qed

lemma join_pieces: "join pat (pieces pat s) = s"
proof (induction pat s rule: pieces.induct)
  case (1 pat s)
  show ?case
  proof (cases "str_find pat s")
    case None
    then show ?thesis by (subst pieces.simps) simp
  next
    case (Some i)
    show ?thesis
    proof (cases "pat = []")
      case True
      with Some show ?thesis by (subst pieces.simps) simp
    next
      case False
      with Some have "join pat (pieces pat (drop (i + length pat) s)) = drop (i + length pat) s"
        by (intro "1.IH") auto
      with Some False str_find_split [OF Some] show ?thesis
        by (subst pieces.simps) (simp add: join_Cons pieces_not_Nil)
    qed
  qed
qed

lemma pieces_no_occurrence:
  "pat \<noteq> [] \<Longrightarrow> x \<in> set (pieces pat s) \<Longrightarrow> \<not> str_contains pat x"
proof (induction pat s rule: pieces.induct)
  case (1 pat s)
  show ?case
  proof (cases "str_find pat s")
    case None
    then have "pieces pat s = [s]" by (subst pieces.simps) simp
    with "1.prems" have "x = s" by simp
    with None show ?thesis by (simp add: str_contains_def)
  next
    case (Some i)
    with "1.prems"(1)
    have "pieces pat s = take i s # pieces pat (drop (i + length pat) s)"
      by (subst pieces.simps) simp
    with "1.prems" have "x = take i s \<or> x \<in> set (pieces pat (drop (i + length pat) s))"
      by simp
    then show ?thesis
    proof
      assume "x = take i s"
      with take_no_occurrence [OF "1.prems"(1) Some] show ?thesis by simp
    next
      assume "x \<in> set (pieces pat (drop (i + length pat) s))"
      with Some "1.prems"(1) show ?thesis by (intro "1.IH") auto
    qed
  qed
qed

lemma add_sections_error_keeps_world:
  "add_sections_to_file file_path config w = (Inl e, w') \<Longrightarrow> w' = w"
  by (auto simp: add_sections_to_file_def write_file_def
           split: sum.splits if_splits option.splits prod.splits)

lemma main_loop_append:
  "main_loop pre n w = (Inr k, w1) \<Longrightarrow> main_loop (pre @ rest) n w = main_loop rest k w1"
proof (induction pre arbitrary: n w)
  case Nil
  then show ?case by simp
next
  case (Cons a pre)
  obtain file_path config where a: "a = (file_path, config)" by (cases a)
  show ?case
  proof (cases "add_sections_to_file file_path config w")
    case (Pair r w')
    show ?thesis
    proof (cases r)
      case (Inl e)
      with Cons.prems a Pair show ?thesis by simp
    next
      case (Inr updated)
      with Cons.prems a Pair
      have "main_loop pre (if updated then n + 1 else n) w' = (Inr k, w1)" by simp
      from Cons.IH [OF this] a Pair Inr show ?thesis by simp
    qed
  qed
qed

section \<open>The guards of the injector\<close>

text \<open>
  Claim C6. When the text of a readable document holds the marker
  \<^verbatim>\<open>## Code Examples\<close>, the injector returns \<^verbatim>\<open>False\<close> after printing the line
  that it skips the document (it already has the section), and writes nothing: the
  files are as before.
\<close>

theorem already_present_skip:
  "files w file_path = Some f \<Longrightarrow> readable f \<Longrightarrow>
   str_contains ''## Code Examples'' (contents f) \<Longrightarrow>
   add_sections_to_file file_path config w
     = (Inr False, print_line (Skipping file_path) w)
   \<and> files (print_line (Skipping file_path) w) = files w"
  by (simp add: add_sections_to_file_def read_file_def files_print_line
                str_contains_universal_newlines)

theorem already_present_skip_witness:
  "files
     (\<lparr>files = [''docs/casts.md'' \<mapsto>
         \<lparr>contents = ''# Casts\<newline>\<newline>## Code Examples\<newline>\<newline>## See Also\<newline>'',
        readable = True, writable = True\<rparr>],
      linesep = ''\<newline>'', out = []\<rparr>) ''docs/casts.md''
     = Some (\<lparr>contents = ''# Casts\<newline>\<newline>## Code Examples\<newline>\<newline>## See Also\<newline>'',
        readable = True, writable = True\<rparr>)
   \<and> readable
       (\<lparr>contents = ''# Casts\<newline>\<newline>## Code Examples\<newline>\<newline>## See Also\<newline>'',
        readable = True, writable = True\<rparr>)
   \<and> str_contains ''## Code Examples''
       (contents (\<lparr>contents = ''# Casts\<newline>\<newline>## Code Examples\<newline>\<newline>## See Also\<newline>'',
        readable = True, writable = True\<rparr>))
   \<and> add_sections_to_file ''docs/casts.md''
       (\<lparr>examples = [(''Basic'', ''ex/basic.php'', ''desc'')],
        tests = [''tests/T.php - unit test''], test_filter = ''Foo''\<rparr>)
       (\<lparr>files = [''docs/casts.md'' \<mapsto>
         \<lparr>contents = ''# Casts\<newline>\<newline>## Code Examples\<newline>\<newline>## See Also\<newline>'',
        readable = True, writable = True\<rparr>],
      linesep = ''\<newline>'', out = []\<rparr>)
     = (Inr False,
        print_line (Skipping ''docs/casts.md'')
          (\<lparr>files = [''docs/casts.md'' \<mapsto>
         \<lparr>contents = ''# Casts\<newline>\<newline>## Code Examples\<newline>\<newline>## See Also\<newline>'',
        readable = True, writable = True\<rparr>],
      linesep = ''\<newline>'', out = []\<rparr>))
   \<and> files (print_line (Skipping ''docs/casts.md'')
          (\<lparr>files = [''docs/casts.md'' \<mapsto>
         \<lparr>contents = ''# Casts\<newline>\<newline>## Code Examples\<newline>\<newline>## See Also\<newline>'',
        readable = True, writable = True\<rparr>],
      linesep = ''\<newline>'', out = []\<rparr>))
     = files
         (\<lparr>files = [''docs/casts.md'' \<mapsto>
         \<lparr>contents = ''# Casts\<newline>\<newline>## Code Examples\<newline>\<newline>## See Also\<newline>'',
        readable = True, writable = True\<rparr>],
      linesep = ''\<newline>'', out = []\<rparr>)"
proof -
  have a: "files
     (\<lparr>files = [''docs/casts.md'' \<mapsto>
         \<lparr>contents = ''# Casts\<newline>\<newline>## Code Examples\<newline>\<newline>## See Also\<newline>'',
        readable = True, writable = True\<rparr>],
      linesep = ''\<newline>'', out = []\<rparr>) ''docs/casts.md''
     = Some (\<lparr>contents = ''# Casts\<newline>\<newline>## Code Examples\<newline>\<newline>## See Also\<newline>'',
        readable = True, writable = True\<rparr>)"
    by simp
  have b: "readable
       (\<lparr>contents = ''# Casts\<newline>\<newline>## Code Examples\<newline>\<newline>## See Also\<newline>'',
        readable = True, writable = True\<rparr>)"
    by simp
  have c: "str_contains ''## Code Examples''
       (contents (\<lparr>contents = ''# Casts\<newline>\<newline>## Code Examples\<newline>\<newline>## See Also\<newline>'',
        readable = True, writable = True\<rparr>))"
    by code_simp
  show ?thesis
    using already_present_skip [OF a b c, of
      "\<lparr>examples = [(''Basic'', ''ex/basic.php'', ''desc'')],
        tests = [''tests/T.php - unit test''], test_filter = ''Foo''\<rparr>"]
      a b c
    by blast
qed

text \<open>
  Claim C7. When the text of a readable document holds neither the marker
  \<^verbatim>\<open>## Code Examples\<close> nor the anchor \<^verbatim>\<open>## See Also\<close>, the injector returns
  \<^verbatim>\<open>False\<close> after printing the line that no anchor section was found, and writes
  nothing: the files are as before.
\<close>

theorem missing_anchor_skip:
  "files w file_path = Some f \<Longrightarrow> readable f \<Longrightarrow>
   \<not> str_contains ''## Code Examples'' (contents f) \<Longrightarrow>
   \<not> str_contains ''## See Also'' (contents f) \<Longrightarrow>
   add_sections_to_file file_path config w
     = (Inr False, print_line (NoSeeAlso file_path) w)
   \<and> files (print_line (NoSeeAlso file_path) w) = files w"
  by (simp add: add_sections_to_file_def read_file_def files_print_line
                str_contains_universal_newlines)

theorem missing_anchor_skip_witness:
  "files
     (\<lparr>files = [''docs/casts.md'' \<mapsto>
         \<lparr>contents = ''# Casts\<newline>\<newline>Text only.\<newline>'',
        readable = True, writable = True\<rparr>],
      linesep = ''\<newline>'', out = []\<rparr>) ''docs/casts.md''
     = Some (\<lparr>contents = ''# Casts\<newline>\<newline>Text only.\<newline>'',
        readable = True, writable = True\<rparr>)
   \<and> readable
       (\<lparr>contents = ''# Casts\<newline>\<newline>Text only.\<newline>'',
        readable = True, writable = True\<rparr>)
   \<and> \<not> str_contains ''## Code Examples''
       (contents (\<lparr>contents = ''# Casts\<newline>\<newline>Text only.\<newline>'',
        readable = True, writable = True\<rparr>))
   \<and> \<not> str_contains ''## See Also''
       (contents (\<lparr>contents = ''# Casts\<newline>\<newline>Text only.\<newline>'',
        readable = True, writable = True\<rparr>))
   \<and> add_sections_to_file ''docs/casts.md''
       (\<lparr>examples = [(''Basic'', ''ex/basic.php'', ''desc'')],
        tests = [''tests/T.php - unit test''], test_filter = ''Foo''\<rparr>)
       (\<lparr>files = [''docs/casts.md'' \<mapsto>
         \<lparr>contents = ''# Casts\<newline>\<newline>Text only.\<newline>'',
        readable = True, writable = True\<rparr>],
      linesep = ''\<newline>'', out = []\<rparr>)
     = (Inr False,
        print_line (NoSeeAlso ''docs/casts.md'')
          (\<lparr>files = [''docs/casts.md'' \<mapsto>
         \<lparr>contents = ''# Casts\<newline>\<newline>Text only.\<newline>'',
        readable = True, writable = True\<rparr>],
      linesep = ''\<newline>'', out = []\<rparr>))
   \<and> files (print_line (NoSeeAlso ''docs/casts.md'')
          (\<lparr>files = [''docs/casts.md'' \<mapsto>
         \<lparr>contents = ''# Casts\<newline>\<newline>Text only.\<newline>'',
        readable = True, writable = True\<rparr>],
      linesep = ''\<newline>'', out = []\<rparr>))
     = files
         (\<lparr>files = [''docs/casts.md'' \<mapsto>
         \<lparr>contents = ''# Casts\<newline>\<newline>Text only.\<newline>'',
        readable = True, writable = True\<rparr>],
      linesep = ''\<newline>'', out = []\<rparr>)"
proof -
  have a: "files
     (\<lparr>files = [''docs/casts.md'' \<mapsto>
         \<lparr>contents = ''# Casts\<newline>\<newline>Text only.\<newline>'',
        readable = True, writable = True\<rparr>],
      linesep = ''\<newline>'', out = []\<rparr>) ''docs/casts.md''
     = Some (\<lparr>contents = ''# Casts\<newline>\<newline>Text only.\<newline>'',
        readable = True, writable = True\<rparr>)"
    by simp
  have b: "readable
       (\<lparr>contents = ''# Casts\<newline>\<newline>Text only.\<newline>'',
        readable = True, writable = True\<rparr>)"
    by simp
  have c: "\<not> str_contains ''## Code Examples''
       (contents (\<lparr>contents = ''# Casts\<newline>\<newline>Text only.\<newline>'',
        readable = True, writable = True\<rparr>))"
    by code_simp
  have d: "\<not> str_contains ''## See Also''
       (contents (\<lparr>contents = ''# Casts\<newline>\<newline>Text only.\<newline>'',
        readable = True, writable = True\<rparr>))"
    by code_simp
  show ?thesis
    using missing_anchor_skip [OF a b c d, of
      "\<lparr>examples = [(''Basic'', ''ex/basic.php'', ''desc'')],
        tests = [''tests/T.php - unit test''], test_filter = ''Foo''\<rparr>"]
      a b c d
    by blast
qed




section \<open>The splice\<close>

text \<open>
  Claim C2, as stated: in a text with more than one anchor only the first occurrence is
  replaced, by the examples block, the tests block and the anchor, and all other text
  is byte-identical in the output. It is not so. \<^verbatim>\<open>str.replace\<close> without a count
  replaces every occurrence, and the replacement has a newline between the tests block
  and the anchor: on the text \<^verbatim>\<open>## See Also|## See Also\<close> the injector writes the two
  blocks before both anchors, which is not the single splice of the specification. And
  the text is read and written in text mode: a carriage return and line feed before the
  anchor come back as a line feed alone.
\<close>

theorem single_replace_counterexample:
  "str_contains ''## See Also'' ''## See Also|## See Also''
   \<and> \<not> str_contains ''## Code Examples'' ''## See Also|## See Also''
   \<and> map_option contents
       (files (snd (add_sections_to_file ''docs/casts.md''
          (\<lparr>examples = [], tests = [], test_filter = ''F''\<rparr>)
          (\<lparr>files = [''docs/casts.md'' \<mapsto>
         \<lparr>contents = ''## See Also|## See Also'',
        readable = True, writable = True\<rparr>],
      linesep = ''\<newline>'', out = []\<rparr>))) ''docs/casts.md'')
     = Some ((examples_section (\<lparr>examples = [], tests = [], test_filter = ''F''\<rparr>)
        @ tests_section (\<lparr>examples = [], tests = [], test_filter = ''F''\<rparr>)) @ ''\<newline>## See Also|''
             @ (examples_section (\<lparr>examples = [], tests = [], test_filter = ''F''\<rparr>)
        @ tests_section (\<lparr>examples = [], tests = [], test_filter = ''F''\<rparr>)) @ ''\<newline>## See Also'')
   \<and> map_option contents
       (files (snd (add_sections_to_file ''docs/casts.md''
          (\<lparr>examples = [], tests = [], test_filter = ''F''\<rparr>)
          (\<lparr>files = [''docs/casts.md'' \<mapsto>
         \<lparr>contents = ''## See Also|## See Also'',
        readable = True, writable = True\<rparr>],
      linesep = ''\<newline>'', out = []\<rparr>))) ''docs/casts.md'')
     \<noteq> Some (splice_first ''## See Also''
               (examples_section (\<lparr>examples = [], tests = [], test_filter = ''F''\<rparr>)
        @ tests_section (\<lparr>examples = [], tests = [], test_filter = ''F''\<rparr>)) ''## See Also|## See Also'')
   \<and> map_option contents
       (files (snd (add_sections_to_file ''docs/casts.md''
          (\<lparr>examples = [], tests = [], test_filter = ''F''\<rparr>)
          (\<lparr>files = [''docs/casts.md'' \<mapsto>
         \<lparr>contents = (''a'' @ [CHR 0x0D] @ ''\<newline>## See Also''),
        readable = True, writable = True\<rparr>],
      linesep = ''\<newline>'', out = []\<rparr>))) ''docs/casts.md'')
     = Some (''a\<newline>'' @ (examples_section (\<lparr>examples = [], tests = [], test_filter = ''F''\<rparr>)
        @ tests_section (\<lparr>examples = [], tests = [], test_filter = ''F''\<rparr>)) @ ''\<newline>## See Also'')
   \<and> map_option contents
       (files (snd (add_sections_to_file ''docs/casts.md''
          (\<lparr>examples = [], tests = [], test_filter = ''F''\<rparr>)
          (\<lparr>files = [''docs/casts.md'' \<mapsto>
         \<lparr>contents = (''a'' @ [CHR 0x0D] @ ''\<newline>## See Also''),
        readable = True, writable = True\<rparr>],
      linesep = ''\<newline>'', out = []\<rparr>))) ''docs/casts.md'')
     \<noteq> Some (splice_first ''## See Also''
               (examples_section (\<lparr>examples = [], tests = [], test_filter = ''F''\<rparr>)
        @ tests_section (\<lparr>examples = [], tests = [], test_filter = ''F''\<rparr>))
               (''a'' @ [CHR 0x0D] @ ''\<newline>## See Also''))"
  by code_simp

text \<open>
  Claim C2, amended. For every text that holds the anchor \<^verbatim>\<open>## See Also\<close> and not the
  marker \<^verbatim>\<open>## Code Examples\<close>, in a readable and writable document, the injector
  returns \<^verbatim>\<open>True\<close> and writes the text in which every occurrence of the anchor (found
  from the left, not overlapping) is replaced by the examples block, the tests block, a
  newline and the anchor. The pieces of text between the occurrences are the pieces of
  the text as it is read, in the same order, and none of them holds the anchor. The text
  as it is read is the input with universal newlines, and the text on disk is the written
  text with the platform's line separator for every line feed: the text outside the
  occurrences is byte-identical when the input holds no carriage return and the line
  separator is the line feed.
\<close>

theorem every_anchor_replaced:
  assumes "files w file_path = Some f" and "readable f" and "writable f"
    and "\<not> str_contains ''## Code Examples'' (contents f)"
    and "str_contains ''## See Also'' (contents f)"
  shows "add_sections_to_file file_path config w =
           (Inr True,
            print_line (Updated file_path)
              (w\<lparr>files := (files w)(file_path \<mapsto>
                   f\<lparr>contents :=
                        write_newlines (linesep w)
                          (join (examples_section config @ tests_section config
                              @ ''\<newline>## See Also'')
                             (pieces ''## See Also''
                                (universal_newlines (contents f))))\<rparr>)\<rparr>))
         \<and> universal_newlines (contents f)
             = join ''## See Also'' (pieces ''## See Also'' (universal_newlines (contents f)))
         \<and> (\<forall>x \<in> set (pieces ''## See Also'' (universal_newlines (contents f))).
               \<not> str_contains ''## See Also'' x)
         \<and> (CHR 0x0D \<notin> set (contents f) \<longrightarrow>
               universal_newlines (contents f) = contents f)
         \<and> (linesep w = ''\<newline>'' \<longrightarrow>
               write_newlines (linesep w)
                 (join (examples_section config @ tests_section config
                              @ ''\<newline>## See Also'')
                    (pieces ''## See Also'' (universal_newlines (contents f))))
               = join (examples_section config @ tests_section config
                              @ ''\<newline>## See Also'')
                   (pieces ''## See Also'' (universal_newlines (contents f))))"
proof -
  let ?text = "universal_newlines (contents f)"
  have "new_content config ?text =
          join (examples_section config @ tests_section config
                              @ ''\<newline>## See Also'')
               (pieces ''## See Also'' ?text)"
    unfolding new_content_def by (rule replace_str_join_pieces) simp
  with assms have "add_sections_to_file file_path config w =
           (Inr True,
            print_line (Updated file_path)
              (w\<lparr>files := (files w)(file_path \<mapsto>
                   f\<lparr>contents :=
                        write_newlines (linesep w)
                          (join (examples_section config @ tests_section config
                              @ ''\<newline>## See Also'')
                             (pieces ''## See Also'' ?text))\<rparr>)\<rparr>))"
    by (simp add: add_sections_to_file_def read_file_def write_file_def
                  str_contains_universal_newlines)
  moreover have "?text = join ''## See Also'' (pieces ''## See Also'' ?text)"
    by (simp only: join_pieces)
  moreover have "\<forall>x \<in> set (pieces ''## See Also'' ?text).
               \<not> str_contains ''## See Also'' x"
    using pieces_no_occurrence [of "''## See Also''"] by blast
  moreover have "CHR 0x0D \<notin> set (contents f) \<longrightarrow> ?text = contents f"
    by (simp add: universal_newlines_no_CR)
  moreover have "linesep w = ''\<newline>'' \<longrightarrow>
               write_newlines (linesep w)
                 (join (examples_section config @ tests_section config
                              @ ''\<newline>## See Also'')
                    (pieces ''## See Also'' ?text))
               = join (examples_section config @ tests_section config
                              @ ''\<newline>## See Also'')
                   (pieces ''## See Also'' ?text)"
    by (simp add: write_newlines_LF)
  ultimately show ?thesis by blast
qed

theorem every_anchor_replaced_witness:
  "universal_newlines (''a'' @ [CHR 0x0D] @ ''\<newline>## See Also|## See Also'')
     = ''a\<newline>## See Also|## See Also''
   \<and> pieces ''## See Also'' ''a\<newline>## See Also|## See Also'' = [''a\<newline>'', ''|'', []]
   \<and> add_sections_to_file ''docs/casts.md''
       (\<lparr>examples = [], tests = [], test_filter = ''F''\<rparr>)
       (\<lparr>files = [''docs/casts.md'' \<mapsto>
         \<lparr>contents = (''a'' @ [CHR 0x0D] @ ''\<newline>## See Also|## See Also''),
        readable = True, writable = True\<rparr>],
      linesep = [CHR 0x0D, CHR 0x0A], out = []\<rparr>)
     = (Inr True,
        print_line (Updated ''docs/casts.md'')
          ((\<lparr>files = [''docs/casts.md'' \<mapsto>
         \<lparr>contents = (''a'' @ [CHR 0x0D] @ ''\<newline>## See Also|## See Also''),
        readable = True, writable = True\<rparr>],
      linesep = [CHR 0x0D, CHR 0x0A], out = []\<rparr>)
           \<lparr>files := (files (\<lparr>files = [''docs/casts.md'' \<mapsto>
         \<lparr>contents = (''a'' @ [CHR 0x0D] @ ''\<newline>## See Also|## See Also''),
        readable = True, writable = True\<rparr>],
      linesep = [CHR 0x0D, CHR 0x0A], out = []\<rparr>))(''docs/casts.md'' \<mapsto>
              (\<lparr>contents = (''a'' @ [CHR 0x0D] @ ''\<newline>## See Also|## See Also''),
        readable = True, writable = True\<rparr>)
              \<lparr>contents :=
         join [CHR 0x0D, CHR 0x0A]
           [''a'',
            [],
            ''## Code Examples'',
            [],
            ''The following working examples demonstrate this feature:'',
            [],
            [],
            ''All examples are fully tested and can be run directly.'',
            [],
            ''## Related Tests'',
            [],
            ''The functionality is thoroughly tested. Key test files:'',
            [],
            [],
            ''Run the tests:'',
            [],
            ''```bash'',
            ''# Run tests'',
            ''task test:unit -- --filter=F'',
            ''```'',
            [],
            ''## See Also|'',
            ''## Code Examples'',
            [],
            ''The following working examples demonstrate this feature:'',
            [],
            [],
            ''All examples are fully tested and can be run directly.'',
            [],
            ''## Related Tests'',
            [],
            ''The functionality is thoroughly tested. Key test files:'',
            [],
            [],
            ''Run the tests:'',
            [],
            ''```bash'',
            ''# Run tests'',
            ''task test:unit -- --filter=F'',
            ''```'',
            [],
            ''## See Also'']\<rparr>)\<rparr>))"
proof -
  have a: "files (\<lparr>files = [''docs/casts.md'' \<mapsto>
         \<lparr>contents = (''a'' @ [CHR 0x0D] @ ''\<newline>## See Also|## See Also''),
        readable = True, writable = True\<rparr>],
      linesep = [CHR 0x0D, CHR 0x0A], out = []\<rparr>) ''docs/casts.md''
     = Some (\<lparr>contents = (''a'' @ [CHR 0x0D] @ ''\<newline>## See Also|## See Also''),
        readable = True, writable = True\<rparr>)"
    by simp
  have b: "readable (\<lparr>contents = (''a'' @ [CHR 0x0D] @ ''\<newline>## See Also|## See Also''),
        readable = True, writable = True\<rparr>)" by simp
  have c: "writable (\<lparr>contents = (''a'' @ [CHR 0x0D] @ ''\<newline>## See Also|## See Also''),
        readable = True, writable = True\<rparr>)" by simp
  have d: "\<not> str_contains ''## Code Examples''
       (contents (\<lparr>contents = (''a'' @ [CHR 0x0D] @ ''\<newline>## See Also|## See Also''),
        readable = True, writable = True\<rparr>))"
    by code_simp
  have e: "str_contains ''## See Also''
       (contents (\<lparr>contents = (''a'' @ [CHR 0x0D] @ ''\<newline>## See Also|## See Also''),
        readable = True, writable = True\<rparr>))"
    by code_simp
  have u: "universal_newlines (''a'' @ [CHR 0x0D] @ ''\<newline>## See Also|## See Also'')
     = ''a\<newline>## See Also|## See Also''"
    by code_simp
  have p: "pieces ''## See Also'' ''a\<newline>## See Also|## See Also'' = [''a\<newline>'', ''|'', []]"
    by code_simp
  have k: "write_newlines
          (linesep (\<lparr>files = [''docs/casts.md'' \<mapsto>
         \<lparr>contents = (''a'' @ [CHR 0x0D] @ ''\<newline>## See Also|## See Also''),
        readable = True, writable = True\<rparr>],
      linesep = [CHR 0x0D, CHR 0x0A], out = []\<rparr>))
          (join (examples_section (\<lparr>examples = [], tests = [], test_filter = ''F''\<rparr>)
                 @ tests_section (\<lparr>examples = [], tests = [], test_filter = ''F''\<rparr>)
                 @ ''\<newline>## See Also'')
             (pieces ''## See Also''
                (universal_newlines (contents (\<lparr>contents = (''a'' @ [CHR 0x0D] @ ''\<newline>## See Also|## See Also''),
        readable = True, writable = True\<rparr>)))))
     = join [CHR 0x0D, CHR 0x0A]
           [''a'',
            [],
            ''## Code Examples'',
            [],
            ''The following working examples demonstrate this feature:'',
            [],
            [],
            ''All examples are fully tested and can be run directly.'',
            [],
            ''## Related Tests'',
            [],
            ''The functionality is thoroughly tested. Key test files:'',
            [],
            [],
            ''Run the tests:'',
            [],
            ''```bash'',
            ''# Run tests'',
            ''task test:unit -- --filter=F'',
            ''```'',
            [],
            ''## See Also|'',
            ''## Code Examples'',
            [],
            ''The following working examples demonstrate this feature:'',
            [],
            [],
            ''All examples are fully tested and can be run directly.'',
            [],
            ''## Related Tests'',
            [],
            ''The functionality is thoroughly tested. Key test files:'',
            [],
            [],
            ''Run the tests:'',
            [],
            ''```bash'',
            ''# Run tests'',
            ''task test:unit -- --filter=F'',
            ''```'',
            [],
            ''## See Also'']"
    by code_simp
  show ?thesis
    using every_anchor_replaced [OF a b c d e, of
      "\<lparr>examples = [], tests = [], test_filter = ''F''\<rparr>"] u p
    unfolding k by blast
qed


section \<open>The batch driver\<close>

text \<open>
  Claim C3, as stated: an error in one document is caught by the driver, the remaining
  documents are processed and the summary is printed. It is not so: \<^verbatim>\<open>main\<close> has no
  handler. When the first configured document does not exist, \<^verbatim>\<open>main\<close> ends with the
  error after the banner line; the second document, which has an anchor, is left as it
  is, and no summary is printed.
\<close>

theorem uncaught_error_counterexample:
  "main
     (\<lparr>files = [''starlight/src/content/docs/simple-dto/validation.md'' \<mapsto>
         \<lparr>contents = ''# Page\<newline>\<newline>## See Also\<newline>- link\<newline>'',
            readable = True, writable = True\<rparr>],
      linesep = ''\<newline>'', out = []\<rparr>)
   = (Inl (FileNotFoundError ''starlight/src/content/docs/simple-dto/type-casting.md''),
      \<lparr>files = [''starlight/src/content/docs/simple-dto/validation.md'' \<mapsto>
         \<lparr>contents = ''# Page\<newline>\<newline>## See Also\<newline>- link\<newline>'',
            readable = True, writable = True\<rparr>],
      linesep = ''\<newline>'', out = [Banner]\<rparr>)"
  by (simp add: main_def DOCS_CONFIG_def add_sections_to_file_def read_file_def print_line_def)

text \<open>
  Claim C3, amended. An error raised while processing a configured document is not
  caught by the batch driver: \<^verbatim>\<open>main\<close> ends with that error, in the world as it is
  after the documents before it. The remaining documents are not processed, and neither
  a status line for the failing document nor the summary is printed.
\<close>

theorem error_leaves_batch:
  assumes "DOCS_CONFIG = pre @ (file_path, config) # post"
    and "main_loop pre 0 (print_line Banner w) = (Inr k, w1)"
    and "add_sections_to_file file_path config w1 = (Inl e, w2)"
  shows "main w = (Inl e, w1)"
proof -
  from assms(3) have "w2 = w1" by (rule add_sections_error_keeps_world)
  with assms(3) have failing: "add_sections_to_file file_path config w1 = (Inl e, w1)"
    by simp
  have "main_loop DOCS_CONFIG 0 (print_line Banner w)
          = main_loop ((file_path, config) # post) k w1"
    unfolding assms(1) by (rule main_loop_append [OF assms(2)])
  also have "\<dots> = (Inl e, w1)" by (simp add: failing)
  finally show ?thesis by (simp add: main_def)
qed

theorem error_leaves_batch_witness:
  "DOCS_CONFIG = [DOCS_CONFIG ! 0]
       @ (''starlight/src/content/docs/simple-dto/validation.md'', snd (DOCS_CONFIG ! 1)) # drop 2 DOCS_CONFIG
   \<and> main_loop [DOCS_CONFIG ! 0] 0
       (print_line Banner
          (\<lparr>files = [''starlight/src/content/docs/simple-dto/type-casting.md'' \<mapsto>
         \<lparr>contents = ''# Page\<newline>\<newline>## Code Examples\<newline>\<newline>## See Also\<newline>'',
            readable = True, writable = True\<rparr>,
               ''starlight/src/content/docs/simple-dto/conditional-properties.md'' \<mapsto>
         \<lparr>contents = ''# Page\<newline>\<newline>## See Also\<newline>- link\<newline>'',
            readable = True, writable = True\<rparr>],
      linesep = ''\<newline>'', out = []\<rparr>))
     = (Inr 0,
        \<lparr>files = [''starlight/src/content/docs/simple-dto/type-casting.md'' \<mapsto>
         \<lparr>contents = ''# Page\<newline>\<newline>## Code Examples\<newline>\<newline>## See Also\<newline>'',
            readable = True, writable = True\<rparr>,
               ''starlight/src/content/docs/simple-dto/conditional-properties.md'' \<mapsto>
         \<lparr>contents = ''# Page\<newline>\<newline>## See Also\<newline>- link\<newline>'',
            readable = True, writable = True\<rparr>],
      linesep = ''\<newline>'', out = [Banner, Skipping ''starlight/src/content/docs/simple-dto/type-casting.md'']\<rparr>)
   \<and> add_sections_to_file ''starlight/src/content/docs/simple-dto/validation.md'' (snd (DOCS_CONFIG ! 1))
       (\<lparr>files = [''starlight/src/content/docs/simple-dto/type-casting.md'' \<mapsto>
         \<lparr>contents = ''# Page\<newline>\<newline>## Code Examples\<newline>\<newline>## See Also\<newline>'',
            readable = True, writable = True\<rparr>,
               ''starlight/src/content/docs/simple-dto/conditional-properties.md'' \<mapsto>
         \<lparr>contents = ''# Page\<newline>\<newline>## See Also\<newline>- link\<newline>'',
            readable = True, writable = True\<rparr>],
      linesep = ''\<newline>'', out = [Banner, Skipping ''starlight/src/content/docs/simple-dto/type-casting.md'']\<rparr>)
     = (Inl (FileNotFoundError ''starlight/src/content/docs/simple-dto/validation.md''),
        \<lparr>files = [''starlight/src/content/docs/simple-dto/type-casting.md'' \<mapsto>
         \<lparr>contents = ''# Page\<newline>\<newline>## Code Examples\<newline>\<newline>## See Also\<newline>'',
            readable = True, writable = True\<rparr>,
               ''starlight/src/content/docs/simple-dto/conditional-properties.md'' \<mapsto>
         \<lparr>contents = ''# Page\<newline>\<newline>## See Also\<newline>- link\<newline>'',
            readable = True, writable = True\<rparr>],
      linesep = ''\<newline>'', out = [Banner, Skipping ''starlight/src/content/docs/simple-dto/type-casting.md'']\<rparr>)
   \<and> main
       (\<lparr>files = [''starlight/src/content/docs/simple-dto/type-casting.md'' \<mapsto>
         \<lparr>contents = ''# Page\<newline>\<newline>## Code Examples\<newline>\<newline>## See Also\<newline>'',
            readable = True, writable = True\<rparr>,
               ''starlight/src/content/docs/simple-dto/conditional-properties.md'' \<mapsto>
         \<lparr>contents = ''# Page\<newline>\<newline>## See Also\<newline>- link\<newline>'',
            readable = True, writable = True\<rparr>],
      linesep = ''\<newline>'', out = []\<rparr>)
     = (Inl (FileNotFoundError ''starlight/src/content/docs/simple-dto/validation.md''),
        \<lparr>files = [''starlight/src/content/docs/simple-dto/type-casting.md'' \<mapsto>
         \<lparr>contents = ''# Page\<newline>\<newline>## Code Examples\<newline>\<newline>## See Also\<newline>'',
            readable = True, writable = True\<rparr>,
               ''starlight/src/content/docs/simple-dto/conditional-properties.md'' \<mapsto>
         \<lparr>contents = ''# Page\<newline>\<newline>## See Also\<newline>- link\<newline>'',
            readable = True, writable = True\<rparr>],
      linesep = ''\<newline>'', out = [Banner, Skipping ''starlight/src/content/docs/simple-dto/type-casting.md'']\<rparr>)"
proof -
  have a: "DOCS_CONFIG = [DOCS_CONFIG ! 0]
       @ (''starlight/src/content/docs/simple-dto/validation.md'', snd (DOCS_CONFIG ! 1)) # drop 2 DOCS_CONFIG"
    by (simp add: DOCS_CONFIG_def)
  have m: "str_contains ''## Code Examples''
      (universal_newlines ''# Page\<newline>\<newline>## Code Examples\<newline>\<newline>## See Also\<newline>'')"
    by code_simp
  have b: "main_loop [DOCS_CONFIG ! 0] 0
       (print_line Banner
          (\<lparr>files = [''starlight/src/content/docs/simple-dto/type-casting.md'' \<mapsto>
         \<lparr>contents = ''# Page\<newline>\<newline>## Code Examples\<newline>\<newline>## See Also\<newline>'',
            readable = True, writable = True\<rparr>,
               ''starlight/src/content/docs/simple-dto/conditional-properties.md'' \<mapsto>
         \<lparr>contents = ''# Page\<newline>\<newline>## See Also\<newline>- link\<newline>'',
            readable = True, writable = True\<rparr>],
      linesep = ''\<newline>'', out = []\<rparr>))
     = (Inr 0,
        \<lparr>files = [''starlight/src/content/docs/simple-dto/type-casting.md'' \<mapsto>
         \<lparr>contents = ''# Page\<newline>\<newline>## Code Examples\<newline>\<newline>## See Also\<newline>'',
            readable = True, writable = True\<rparr>,
               ''starlight/src/content/docs/simple-dto/conditional-properties.md'' \<mapsto>
         \<lparr>contents = ''# Page\<newline>\<newline>## See Also\<newline>- link\<newline>'',
            readable = True, writable = True\<rparr>],
      linesep = ''\<newline>'', out = [Banner, Skipping ''starlight/src/content/docs/simple-dto/type-casting.md'']\<rparr>)"
    using m
    by (simp add: DOCS_CONFIG_def add_sections_to_file_def read_file_def print_line_def
             del: universal_newlines.simps)
  have c: "add_sections_to_file ''starlight/src/content/docs/simple-dto/validation.md'' (snd (DOCS_CONFIG ! 1))
       (\<lparr>files = [''starlight/src/content/docs/simple-dto/type-casting.md'' \<mapsto>
         \<lparr>contents = ''# Page\<newline>\<newline>## Code Examples\<newline>\<newline>## See Also\<newline>'',
            readable = True, writable = True\<rparr>,
               ''starlight/src/content/docs/simple-dto/conditional-properties.md'' \<mapsto>
         \<lparr>contents = ''# Page\<newline>\<newline>## See Also\<newline>- link\<newline>'',
            readable = True, writable = True\<rparr>],
      linesep = ''\<newline>'', out = [Banner, Skipping ''starlight/src/content/docs/simple-dto/type-casting.md'']\<rparr>)
     = (Inl (FileNotFoundError ''starlight/src/content/docs/simple-dto/validation.md''),
        \<lparr>files = [''starlight/src/content/docs/simple-dto/type-casting.md'' \<mapsto>
         \<lparr>contents = ''# Page\<newline>\<newline>## Code Examples\<newline>\<newline>## See Also\<newline>'',
            readable = True, writable = True\<rparr>,
               ''starlight/src/content/docs/simple-dto/conditional-properties.md'' \<mapsto>
         \<lparr>contents = ''# Page\<newline>\<newline>## See Also\<newline>- link\<newline>'',
            readable = True, writable = True\<rparr>],
      linesep = ''\<newline>'', out = [Banner, Skipping ''starlight/src/content/docs/simple-dto/type-casting.md'']\<rparr>)"
    by (simp add: add_sections_to_file_def read_file_def)
  show ?thesis
    using error_leaves_batch [OF a b c] a b c by blast
qed

end
